theory Spec2Isabelle
  imports Main
begin

section \<open>Token codec: the class \<open>useToken\<close>\<close>

text \<open>
  The token utility wraps the \<open>jsonwebtoken\<close> package. The package is not part of the
  repository, so its two entry points are parameters of the model: \<open>jwt.verify\<close> is a
  function from a token and a key to an outcome (the decoded value, or the error object
  it throws), and \<open>jwt.sign\<close> a function from a payload, a key and a lifetime in seconds
  to a token. The clock the package reads is part of these parameters.

  A decoded value is \<open>string | JwtPayload\<close>; a payload is a list of named fields.
\<close>

datatype claim_value = CStr string | CNum int

datatype jwt_data = JwtString string | JwtPayload "(string \<times> claim_value) list"

text \<open>
  The \<open>catch\<close> block of \<open>verify\<close> inspects the thrown object with three
  \<open>instanceof\<close> tests and reads its \<open>message\<close>. A thrown object is therefore the
  answers to these three tests together with the message. (In the package both
  \<open>TokenExpiredError\<close> and \<open>NotBeforeError\<close> extend \<open>JsonWebTokenError\<close>; the model
  does not assume any relation between the three answers.)
\<close>

record thrown =
  isTokenExpiredError :: bool
  isJsonWebTokenError :: bool
  isNotBeforeError :: bool
  err_message :: string

datatype jwt_outcome = Returns jwt_data | Throws thrown

type_synonym jwt_verify_fn = "string \<Rightarrow> string \<Rightarrow> jwt_outcome"

type_synonym jwt_sign_fn = "jwt_data \<Rightarrow> string \<Rightarrow> nat \<Rightarrow> string"

text \<open>\<open>DtoVerifyToken\<close>: \<open>{ data: null | string | JwtPayload; message: string }\<close>.\<close>

record dto_verify =
  data :: "jwt_data option"
  message :: string

text \<open>
  \<open>useToken.verify\<close>. \<open>!token\<close> holds of the empty string; the branches of the
  \<open>catch\<close> block are tried in the order of the source.
\<close>

definition verify :: "jwt_verify_fn \<Rightarrow> string \<Rightarrow> string \<Rightarrow> dto_verify" where
  "verify jv token secretKey =
     (if token = [] then \<lparr>data = None, message = ''unauthorized''\<rparr>
      else case jv token secretKey of
        Returns result \<Rightarrow> \<lparr>data = Some result, message = ''token is verify''\<rparr>
      | Throws err \<Rightarrow>
          if isTokenExpiredError err then
            \<lparr>data = None, message = ''jwt expired error : '' @ err_message err\<rparr>
          else if isJsonWebTokenError err then
            \<lparr>data = None, message = ''jwt token error : '' @ err_message err\<rparr>
          else if isNotBeforeError err then
            \<lparr>data = None, message = ''jwt not before error : '' @ err_message err\<rparr>
          else
            \<lparr>data = None, message = ''unknown error: '' @ err_message err\<rparr>)"

text \<open>
  The four failure kinds the specification lists for \<open>verify\<close>, read off the message
  the way the code writes it: the kind's label is the start of the message.
\<close>

definition starts_with :: "string \<Rightarrow> string \<Rightarrow> bool" where
  "starts_with p s = (take (length p) s = p)"

definition spec_failure_kinds :: "dto_verify \<Rightarrow> bool" where
  "spec_failure_kinds r =
     (data r = None \<and>
      (starts_with ''jwt expired error : '' (message r) \<or>
       starts_with ''jwt token error : '' (message r) \<or>
       starts_with ''jwt not before error : '' (message r) \<or>
       starts_with ''unknown error: '' (message r)))"

text \<open>
  The part of an Express request that the token utility and the routes read:
  \<open>req.query.token\<close>, \<open>req.cookies.token\<close> and \<open>req.headers.authorization\<close>, each absent
  (\<open>undefined\<close>) or a string.
\<close>

record request =
  query_token :: "string option"
  cookies_token :: "string option"
  headers_authorization :: "string option"

text \<open>JavaScript truthiness of \<open>string | undefined\<close>: present and not empty.\<close>

fun truthy :: "string option \<Rightarrow> bool" where
  "truthy None = False"
| "truthy (Some s) = (s \<noteq> [])"

text \<open>\<open>s.split(" ")\<close>: the pieces between single spaces; the empty string gives \<open>[""]\<close>.\<close>

fun split_space :: "string \<Rightarrow> string list" where
  "split_space [] = [[]]"
| "split_space (c # cs) =
     (if c = CHR '' '' then [] # split_space cs
      else case split_space cs of
        [] \<Rightarrow> [[c]]
      | w # ws \<Rightarrow> (c # w) # ws)"

definition allowedAuthorize :: "string list" where
  "allowedAuthorize = [''Bearer'', ''JWT'', ''Token'']"

text \<open>
  \<open>useToken.extract\<close> (named \<open>extract_token\<close> here, \<open>extract\<close> being a command of
  Isabelle): query first, then cookie, then the Authorization header.
\<close>

definition extract_token :: "request \<Rightarrow> string option" where
  "extract_token req =
     (if truthy (query_token req) then query_token req
      else if truthy (cookies_token req) then cookies_token req
      else case headers_authorization req of
        None \<Rightarrow> None
      | Some authHeader \<Rightarrow>
          if authHeader = [] then None
          else case split_space authHeader of
            [scheme, tok] \<Rightarrow> if scheme \<in> set allowedAuthorize then Some tok else None
          | _ \<Rightarrow> None)"

text \<open>
  A stand-in for the package's \<open>verify\<close> at a few tokens, used to run the model on
  concrete requests: under the key \<open>s3cret\<close> the token \<open>tok.alice\<close> decodes to a claim,
  the token \<open>tok.old\<close> is expired, and everything else is rejected as malformed.
\<close>

definition demo_jwt_verify :: jwt_verify_fn where
  "demo_jwt_verify token secretKey =
     (if secretKey = ''s3cret'' \<and> token = ''tok.alice'' then
        Returns (JwtPayload [(''email'', CStr ''alice@example.com''),
                             (''userId'', CNum 1), (''role'', CStr ''user'')])
      else if secretKey = ''s3cret'' \<and> token = ''tok.old'' then
        Throws \<lparr>isTokenExpiredError = True, isJsonWebTokenError = True,
                isNotBeforeError = False, err_message = ''jwt expired''\<rparr>
      else
        Throws \<lparr>isTokenExpiredError = False, isJsonWebTokenError = True,
                isNotBeforeError = False, err_message = ''jwt malformed''\<rparr>)"

text \<open>
  \<open>ms\<close> turns a lifetime literal into milliseconds: the number before the last
  character times the unit named by the last character. \<open>generate\<close> takes its lifetime
  from the type \<open>ExpiresType\<close>, whose ten literals are the constructors below; on these
  \<open>ms\<close> never throws.
\<close>

datatype expires_type =
  E1h | E6h | E12h | E1d | E2d | E3d | E4d | E5d | E6d | E7d

fun numericValue :: "expires_type \<Rightarrow> nat" where
  "numericValue E1h = 1"
| "numericValue E6h = 6"
| "numericValue E12h = 12"
| "numericValue E1d = 1"
| "numericValue E2d = 2"
| "numericValue E3d = 3"
| "numericValue E4d = 4"
| "numericValue E5d = 5"
| "numericValue E6d = 6"
| "numericValue E7d = 7"

fun TIME_UNITS :: "expires_type \<Rightarrow> nat" where
  "TIME_UNITS E1h = 60 * 60 * 1000"
| "TIME_UNITS E6h = 60 * 60 * 1000"
| "TIME_UNITS E12h = 60 * 60 * 1000"
| "TIME_UNITS e = 24 * 60 * 60 * 1000"

definition ms :: "expires_type \<Rightarrow> nat" where
  "ms v = numericValue v * TIME_UNITS v"

text \<open>
  \<open>useToken.generate\<close>: the token and its lifetime in seconds. The payload is a plain
  object of strings and numbers, which \<open>JSON.parse(JSON.stringify(value))\<close> returns as
  it is.
\<close>

definition generate :: "jwt_sign_fn \<Rightarrow> jwt_data \<Rightarrow> string \<Rightarrow> expires_type \<Rightarrow> string \<times> nat" where
  "generate js v secretKey expires =
     (let tokenExpires = ms expires;
          expiresIn = tokenExpires div 1000;
          payload = v
      in (js payload secretKey expiresIn, expiresIn))"

section \<open>The database: tables \<open>user\<close> and \<open>userSession\<close>\<close>

text \<open>
  Rows as the schema declares them (the two timestamp columns, which none of the
  operations below reads, are left out). A nullable column is an option. The state
  of the database is the two tables, in insertion order, and the two \<open>serial\<close>
  sequences.
\<close>

record user =
  u_id :: int
  u_name :: string
  u_email :: string
  u_password :: "string option"
  u_passwordToken :: "string option"
  u_isActive :: bool
  u_isEmailVerified :: bool
  u_isDeleted :: bool

record userSession =
  s_id :: int
  s_userId :: int
  s_token :: string

record db =
  users :: "user list"
  sessions :: "userSession list"
  user_id_seq :: int
  session_id_seq :: int

text \<open>
  The schema's column types and constraints, which the database enforces on every
  statement: \<open>id\<close> and \<open>user_id\<close> are 32-bit integers, \<open>first_name\<close> and \<open>email\<close> are
  \<open>varchar(100)\<close>, \<open>password\<close> and \<open>password_token\<close> are \<open>varchar(255)\<close>, \<open>id\<close> is the
  primary key of each table, \<open>email\<close> is unique, and \<open>userSession.user_id\<close> references
  \<open>user.id\<close>. The session table has no unique constraint on \<open>user_id\<close>.
\<close>

definition int4 :: "int \<Rightarrow> bool" where
  "int4 i = (- 2147483648 \<le> i \<and> i \<le> 2147483647)"

definition varchar :: "nat \<Rightarrow> string \<Rightarrow> bool" where
  "varchar n s = (length s \<le> n)"

text \<open>
  The errors a service can throw: the classes of \<open>ErrorResponse\<close> that the code names,
  the validator's error, and the database driver's errors for a violated \<open>UNIQUE\<close> or
  \<open>PRIMARY KEY\<close> constraint (23505), a violated foreign key (23503), a string longer
  than its column (22001), an integer outside 32 bits (22003) and an exhausted
  \<open>serial\<close> sequence (2200H).
\<close>

datatype pg_error =
  UNIQUE_VIOLATION
| FOREIGN_KEY_VIOLATION
| STRING_DATA_RIGHT_TRUNCATION
| NUMERIC_VALUE_OUT_OF_RANGE
| SEQUENCE_GENERATOR_LIMIT_EXCEEDED

datatype error =
  ZodError
| NotFound string
| BadRequest string
| Forbidden string
| InternalServer string
| PostgresError pg_error

section \<open>Session service\<close>

text \<open>\<open>select ... where token = ? limit 1\<close>, then \<open>session[0]\<close> or \<open>null\<close>.\<close>

definition getByToken :: "db \<Rightarrow> string \<Rightarrow> userSession option" where
  "getByToken st tok = find (\<lambda>r. s_token r = tok) (sessions st)"

definition getByUserId :: "db \<Rightarrow> int \<Rightarrow> userSession option" where
  "getByUserId st uid = find (\<lambda>r. s_userId r = uid) (sessions st)"

text \<open>
  \<open>createOrUpdateSession\<close> awaits two statements, with no transaction around them:
  the select of the user's row, and then, depending on what the select found, the
  update of every row of the user or the insert of one row. Each statement is one
  step on the database; between the two steps other requests may run.

  The select: \<open>select ... where user_id = ? limit 1\<close>, then \<open>data[0]\<close>.
\<close>

definition createOrUpdateSession_select :: "db \<Rightarrow> int \<Rightarrow> error + userSession option" where
  "createOrUpdateSession_select st uid =
     (if \<not> int4 uid then Inl (PostgresError NUMERIC_VALUE_OUT_OF_RANGE)
      else Inr (find (\<lambda>r. s_userId r = uid) (sessions st)))"

text \<open>
  \<open>insert into userSession (user_id, token) values (?, ?) returning *\<close>: the id is the
  next value of the sequence (consumed even when a constraint then refuses the row),
  and the row needs a fresh id and a user row with its user id.
\<close>

definition insert_session_row :: "db \<Rightarrow> int \<Rightarrow> string \<Rightarrow> (error + userSession) \<times> db" where
  "insert_session_row st uid tok =
     (if \<not> int4 uid then (Inl (PostgresError NUMERIC_VALUE_OUT_OF_RANGE), st)
      else if \<not> int4 (session_id_seq st)
      then (Inl (PostgresError SEQUENCE_GENERATOR_LIMIT_EXCEEDED), st)
      else
        (let newSession = \<lparr>s_id = session_id_seq st, s_userId = uid, s_token = tok\<rparr>;
             st1 = st\<lparr>session_id_seq := session_id_seq st + 1\<rparr>
         in if s_id newSession \<in> set (map s_id (sessions st))
            then (Inl (PostgresError UNIQUE_VIOLATION), st1)
            else if uid \<notin> set (map u_id (users st))
            then (Inl (PostgresError FOREIGN_KEY_VIOLATION), st1)
            else (Inr newSession, st1\<lparr>sessions := sessions st @ [newSession]\<rparr>)))"

text \<open>
  The write, given what the select found: when it found a row, every row of the user
  gets the new token (the user id is set to the value it has) and the row as it was
  found is returned; otherwise one row is inserted and returned.
\<close>

definition createOrUpdateSession_write ::
  "db \<Rightarrow> int \<Rightarrow> string \<Rightarrow> userSession option \<Rightarrow> (error + userSession) \<times> db" where
  "createOrUpdateSession_write st uid tok session =
     (case session of
        Some found \<Rightarrow>
          if \<not> int4 uid then (Inl (PostgresError NUMERIC_VALUE_OUT_OF_RANGE), st)
          else
            (Inr found,
             st\<lparr>sessions :=
                  map (\<lambda>r. if s_userId r = uid then r\<lparr>s_userId := uid, s_token := tok\<rparr> else r)
                      (sessions st)\<rparr>)
      | None \<Rightarrow> insert_session_row st uid tok)"

text \<open>The call when no other request runs between its two statements.\<close>

definition createOrUpdateSession :: "db \<Rightarrow> int \<Rightarrow> string \<Rightarrow> (error + userSession) \<times> db" where
  "createOrUpdateSession st uid tok =
     (case createOrUpdateSession_select st uid of
        Inl e \<Rightarrow> (Inl e, st)
      | Inr session \<Rightarrow> createOrUpdateSession_write st uid tok session)"

text \<open>\<open>deleteSession\<close>: \<open>delete ... where token = ? returning *\<close>.\<close>

definition deleteSession :: "db \<Rightarrow> string \<Rightarrow> userSession list \<times> db" where
  "deleteSession st tok =
     (filter (\<lambda>r. s_token r = tok) (sessions st),
      st\<lparr>sessions := filter (\<lambda>r. s_token r \<noteq> tok) (sessions st)\<rparr>)"

text \<open>The invariant of the session table: no two rows have the same user id.\<close>

definition one_session_per_user :: "db \<Rightarrow> bool" where
  "one_session_per_user st = distinct (map s_userId (sessions st))"

section \<open>Auth service\<close>

text \<open>
  The collaborators of the service that are not part of the repository's sources are
  fields of one record: the signing key of the environment, the two entry points of
  the token package, the password hasher, whether \<open>sendEmail\<close> resolves (it swallows
  delivery failures itself, so it rejects only when the transport cannot be created),
  the validator's test for an email address, and the outcome of parsing a registration
  payload with the generated insert schema (a payload that parses is returned as it
  is).
\<close>

record insert_user =
  in_id :: "int option"
  in_name :: string
  in_email :: string
  in_password :: string
  in_confirmPassword :: string
  in_passwordToken :: "string option"
  in_isActive :: "bool option"
  in_isEmailVerified :: "bool option"
  in_isDeleted :: "bool option"

record deps =
  JWT_SECRET_ACCESS_TOKEN :: string
  jwt_verify :: jwt_verify_fn
  jwt_sign :: jwt_sign_fn
  hashing_hash :: "string \<Rightarrow> string"
  hashing_verify :: "string \<Rightarrow> string \<Rightarrow> bool"
  sendEmail :: "string \<Rightarrow> string \<Rightarrow> string \<Rightarrow> bool"
  zod_email :: "string \<Rightarrow> bool"
  insert_schema_ok :: "insert_user \<Rightarrow> bool"

definition generateAuthToken :: "deps \<Rightarrow> user \<Rightarrow> string \<times> nat" where
  "generateAuthToken d usr =
     generate (jwt_sign d)
       (JwtPayload [(''email'', CStr (u_email usr)), (''userId'', CNum (u_id usr)),
                    (''role'', CStr ''user'')])
       (JWT_SECRET_ACCESS_TOKEN d) E1d"

text \<open>
  \<open>loginSchema.parse\<close>: the email is an email address of at least 2 characters, the
  password has at least 6. (The \<open>refine\<close> call after the schema discards its result,
  so it adds no check.)
\<close>

definition loginSchema_parse :: "deps \<Rightarrow> string \<Rightarrow> string \<Rightarrow> error + string \<times> string" where
  "loginSchema_parse d email password =
     (if zod_email d email \<and> 2 \<le> length email \<and> 6 \<le> length password
      then Inr (email, password) else Inl ZodError)"

record login_result =
  lr_token :: string
  lr_user :: string
  lr_name :: string
  lr_userId :: int
  lr_expiresIn :: nat

definition userLogin :: "deps \<Rightarrow> db \<Rightarrow> string \<Rightarrow> string \<Rightarrow> error + login_result" where
  "userLogin d st email password =
     (case loginSchema_parse d email password of
        Inl e \<Rightarrow> Inl e
      | Inr (v_email, v_password) \<Rightarrow>
          (case find (\<lambda>u. u_email u = v_email) (users st) of
             None \<Rightarrow> Inl (NotFound ''Account not found or not registered'')
           | Some usr \<Rightarrow>
               if \<not> u_isActive usr then Inl (BadRequest ''Your account is not active'')
               else if \<not> hashing_verify d
                            (case u_password usr of None \<Rightarrow> [] | Some p \<Rightarrow> p) v_password
               then Inl (BadRequest ''Invalid username or password'')
               else
                 (let (tok, expiresIn) = generateAuthToken d usr
                  in Inr \<lparr>lr_token = tok, lr_user = u_email usr, lr_name = u_name usr,
                          lr_userId = u_id usr, lr_expiresIn = expiresIn\<rparr>)))"

text \<open>
  \<open>validateResetToken\<close>. The value that \<open>useToken.verify\<close> returns is a reference to
  an object, written \<open>Some\<close> here; \<open>null\<close> would be \<open>None\<close>. The last line compares that
  reference with \<open>null\<close>, as the source does.
\<close>

definition validateResetToken :: "deps \<Rightarrow> db \<Rightarrow> string \<Rightarrow> string \<Rightarrow> bool" where
  "validateResetToken d st email tok =
     (case find (\<lambda>u. u_email u = email) (users st) of
        None \<Rightarrow> False
      | Some usr \<Rightarrow>
          if \<not> truthy (u_passwordToken usr) \<or> u_passwordToken usr \<noteq> Some tok then False
          else
            (let tokenValidation = Some (verify (jwt_verify d) tok (JWT_SECRET_ACCESS_TOKEN d))
             in tokenValidation \<noteq> None))"

definition sendConfirmationEmail :: "deps \<Rightarrow> string \<Rightarrow> error + unit" where
  "sendConfirmationEmail d email =
     (if sendEmail d email ''Password reset successfully''
           ''Your password has been reset successfully. If you did not request this change, please contact us immediately.''
      then Inr () else Inl (InternalServer ''Failed to send confirmation email.''))"

text \<open>
  The update statement of \<open>resetPassword\<close> on one row:
  \<open>set password = ?, is_email_verified = true, password_token = null where email = ?\<close>.
\<close>

definition reset_row :: "string \<Rightarrow> string \<Rightarrow> user \<Rightarrow> user" where
  "reset_row email hashedPassword u =
     (if u_email u = email
      then u\<lparr>u_password := Some hashedPassword, u_isEmailVerified := True,
             u_passwordToken := None\<rparr>
      else u)"

text \<open>
  \<open>resetPassword\<close> returns its result (or the error it throws) together with the
  database as it leaves it: the update is refused when the hash does not fit the
  \<open>password\<close> column, and it is not undone when the confirmation email fails.
\<close>

definition resetPassword ::
  "deps \<Rightarrow> db \<Rightarrow> string \<Rightarrow> string \<Rightarrow> string \<Rightarrow> (error + string \<times> string) \<times> db" where
  "resetPassword d st email password tok =
     (if \<not> validateResetToken d st email tok
      then (Inl (BadRequest ''Invalid or expired token''), st)
      else
        (let hashedPassword = hashing_hash d password;
             st' = st\<lparr>users := map (reset_row email hashedPassword) (users st)\<rparr>
         in if \<not> varchar 255 hashedPassword
            then (Inl (PostgresError STRING_DATA_RIGHT_TRUNCATION), st)
            else case sendConfirmationEmail d email of
              Inl e \<Rightarrow> (Inl e, st')
            | Inr _ \<Rightarrow> (Inr (''Password reset successfully'', email), st')))"

definition getUserByEmail :: "db \<Rightarrow> string \<Rightarrow> user option" where
  "getUserByEmail st email =
     find (\<lambda>u. u_email u = email \<and> u_isDeleted u = False) (users st)"

text \<open>
  \<open>update user set password_token = ? where email = ?\<close>, used by the two functions
  that issue a token by email, each after it has found a row with the email. A token
  of more than 255 characters does not fit the column: the statement throws and
  changes nothing.
\<close>

definition set_passwordToken :: "db \<Rightarrow> string \<Rightarrow> string \<Rightarrow> error + db" where
  "set_passwordToken st email tok =
     (if \<not> varchar 255 tok then Inl (PostgresError STRING_DATA_RIGHT_TRUNCATION)
      else Inr (st\<lparr>users := map (\<lambda>u. if u_email u = email
                                       then u\<lparr>u_passwordToken := Some tok\<rparr> else u)
                               (users st)\<rparr>))"

definition sendVerificationEmail :: "deps \<Rightarrow> db \<Rightarrow> string \<Rightarrow> (error + string) \<times> db" where
  "sendVerificationEmail d st email =
     (case getUserByEmail st email of
        None \<Rightarrow> (Inl (NotFound ''User not found''), st)
      | Some usr \<Rightarrow>
          (let (tok, expiresIn) =
                 generate (jwt_sign d)
                   (JwtPayload [(''email'', CStr email), (''type'', CStr ''email-verification'')])
                   (JWT_SECRET_ACCESS_TOKEN d) E1d
           in case set_passwordToken st email tok of
                Inl e \<Rightarrow> (Inl e, st)
              | Inr st' \<Rightarrow>
                  if sendEmail d email ''Verify Your Email''
                       (''Please verify your email using the following token: '' @ tok @
                        [CHR 0x0A, CHR 0x0A] @ ''This token will expire in 24 hours.'')
                  then (Inr ''Verification email sent'', st')
                  else (Inl (InternalServer ''Failed to send verification email.''), st')))"

definition requestPasswordReset :: "deps \<Rightarrow> db \<Rightarrow> string \<Rightarrow> (error + string) \<times> db" where
  "requestPasswordReset d st email =
     (case getUserByEmail st email of
        None \<Rightarrow> (Inl (NotFound ''Account not found''), st)
      | Some usr \<Rightarrow>
          (let (tok, expiresIn) =
                 generate (jwt_sign d)
                   (JwtPayload [(''email'', CStr (u_email usr)), (''type'', CStr ''password-reset'')])
                   (JWT_SECRET_ACCESS_TOKEN d) E1h
           in case set_passwordToken st email tok of
                Inl e \<Rightarrow> (Inl e, st)
              | Inr st' \<Rightarrow>
                  if sendEmail d email ''Password Reset Request''
                       (''You requested a password reset. Please use the following token to reset your password: '' @ tok @
                        [CHR 0x0A, CHR 0x0A] @ ''If you did not request this, please ignore this email.'')
                  then (Inr ''Password reset instructions sent to your email'', st')
                  else (Inl (InternalServer ''Failed to send password reset email.''), st')))"

text \<open>
  \<open>insert into user ... returning *\<close>. A column the statement does not give takes its
  default (the id the next value of the sequence, which is consumed even when a
  constraint then refuses the row). A value that does not fit its column's type is
  refused before anything else happens. The table has a primary key on \<open>id\<close> and a
  unique constraint on \<open>email\<close>: a row that repeats either is refused and the table
  stays as it is.
\<close>

definition insert_user_row :: "db \<Rightarrow> insert_user \<Rightarrow> string \<Rightarrow> (error + user) \<times> db" where
  "insert_user_row st v hashedPassword =
     (let st1 = (case in_id v of None \<Rightarrow> st\<lparr>user_id_seq := user_id_seq st + 1\<rparr> | Some i \<Rightarrow> st);
          row = \<lparr>u_id = (case in_id v of None \<Rightarrow> user_id_seq st | Some i \<Rightarrow> i),
                 u_name = in_name v,
                 u_email = in_email v,
                 u_password = Some hashedPassword,
                 u_passwordToken = in_passwordToken v,
                 u_isActive = (case in_isActive v of None \<Rightarrow> True | Some b \<Rightarrow> b),
                 u_isEmailVerified = False,
                 u_isDeleted = (case in_isDeleted v of None \<Rightarrow> False | Some b \<Rightarrow> b)\<rparr>
      in if \<not> int4 (u_id row)
         then (Inl (PostgresError (case in_id v of
                                     None \<Rightarrow> SEQUENCE_GENERATOR_LIMIT_EXCEEDED
                                   | Some i \<Rightarrow> NUMERIC_VALUE_OUT_OF_RANGE)), st)
         else if \<not> (varchar 100 (u_name row) \<and> varchar 100 (u_email row) \<and>
                      varchar 255 hashedPassword \<and>
                      (case u_passwordToken row of None \<Rightarrow> True | Some t \<Rightarrow> varchar 255 t))
         then (Inl (PostgresError STRING_DATA_RIGHT_TRUNCATION), st)
         else if u_email row \<in> set (map u_email (users st)) \<or> u_id row \<in> set (map u_id (users st))
         then (Inl (PostgresError UNIQUE_VIOLATION), st1)
         else (Inr row, st1\<lparr>users := users st @ [row]\<rparr>))"

text \<open>
  \<open>createUser\<close>: parse the payload, look for a user with the email that is not
  soft-deleted, hash the password, insert, send the verification email.
\<close>

definition createUser :: "deps \<Rightarrow> db \<Rightarrow> insert_user \<Rightarrow> (error + string \<times> int) \<times> db" where
  "createUser d st body =
     (if \<not> insert_schema_ok d body then (Inl ZodError, st)
      else
        (let validatedData = body in
         case getUserByEmail st (in_email validatedData) of
           Some existingUser \<Rightarrow> (Inl (BadRequest ''User already exists''), st)
         | None \<Rightarrow>
             (let hashedPassword = hashing_hash d (in_password body) in
              case insert_user_row st validatedData hashedPassword of
                (Inl e, st1) \<Rightarrow> (Inl e, st1)
              | (Inr newUser, st1) \<Rightarrow>
                  (case sendVerificationEmail d st1 (in_email validatedData) of
                     (Inl e, st2) \<Rightarrow> (Inl e, st2)
                   | (Inr _, st2) \<Rightarrow>
                       (Inr (''User registered successfully. Please check your email to verify your account.'',
                             u_id newUser), st2)))))"

section \<open>The authorization gate and the routes of the auth controller\<close>

text \<open>
  A response is the HTTP status together with the JSON body \<open>{ code, message, ... }\<close>;
  the remaining fields of the body are a list of named values.
\<close>

record response =
  status :: nat
  code :: nat
  msg :: string
  body_fields :: "(string \<times> claim_value) list"

definition NO_TOKEN :: response where
  "NO_TOKEN = \<lparr>status = 401, code = 401, msg = ''Unauthorized, no token provided'', body_fields = []\<rparr>"

definition INVALID_TOKEN :: response where
  "INVALID_TOKEN = \<lparr>status = 401, code = 401, msg = ''Unauthorized, invalid jwt'', body_fields = []\<rparr>"

definition NO_SESSION :: response where
  "NO_SESSION = \<lparr>status = 401, code = 401, msg = ''Unauthorized, no valid session'', body_fields = []\<rparr>"

text \<open>
  The middleware \<open>authorization\<close> either answers the request itself or calls \<open>next()\<close>
  with the decoded claim stored in the request state. \<open>!token\<close> and
  \<open>!verifiedToken?.data\<close> are JavaScript falsiness: absent or the empty string.
\<close>

datatype gate = Rejected response | Next jwt_data

definition authorization :: "deps \<Rightarrow> db \<Rightarrow> request \<Rightarrow> gate" where
  "authorization d st req =
     (case extract_token req of
        None \<Rightarrow> Rejected NO_TOKEN
      | Some tok \<Rightarrow>
          if tok = [] then Rejected NO_TOKEN
          else
            (case data (verify (jwt_verify d) tok (JWT_SECRET_ACCESS_TOKEN d)) of
               None \<Rightarrow> Rejected INVALID_TOKEN
             | Some tokenData \<Rightarrow>
                 if tokenData = JwtString [] then Rejected INVALID_TOKEN
                 else
                   (case getByToken st tok of
                      None \<Rightarrow> Rejected NO_SESSION
                    | Some session \<Rightarrow> Next tokenData)))"

text \<open>
  A route handler wrapped in \<open>expressAsyncHandler\<close> either sends a response or passes
  the error it throws to the error middleware (\<open>Inl\<close>); it also leaves a database.
\<close>

type_synonym route_result = "(error + response) \<times> db"

definition login_route :: "deps \<Rightarrow> db \<Rightarrow> string \<Rightarrow> string \<Rightarrow> route_result" where
  "login_route d st email password =
     (case userLogin d st email password of
        Inl e \<Rightarrow> (Inl e, st)
      | Inr login \<Rightarrow>
          (case createOrUpdateSession st (lr_userId login) (lr_token login) of
             (Inl e, st') \<Rightarrow> (Inl e, st')
           | (Inr session, st') \<Rightarrow>
               (Inr \<lparr>status = 200, code = 200, msg = ''data has been received'',
                     body_fields = [(''token'', CStr (lr_token login)), (''user'', CStr (lr_user login)),
                               (''name'', CStr (lr_name login)), (''userId'', CNum (lr_userId login)),
                               (''expiresIn'', CNum (int (lr_expiresIn login)))]\<rparr>, st')))"

text \<open>
  The logout handler reads the token again, from the Authorization header only:
  \<open>authHeader && authHeader.split(" ")[1]\<close>.
\<close>

definition header_token :: "request \<Rightarrow> string option" where
  "header_token req =
     (case headers_authorization req of
        None \<Rightarrow> None
      | Some authHeader \<Rightarrow>
          if authHeader = [] then None
          else case split_space authHeader of
            a # b # rest \<Rightarrow> Some b
          | _ \<Rightarrow> None)"

definition logout_route :: "deps \<Rightarrow> db \<Rightarrow> request \<Rightarrow> route_result" where
  "logout_route d st req =
     (case authorization d st req of
        Rejected r \<Rightarrow> (Inr r, st)
      | Next tokenData \<Rightarrow>
          (let st' = (case header_token req of
                        None \<Rightarrow> st
                      | Some tok \<Rightarrow> if tok = [] then st else snd (deleteSession st tok))
           in (Inr \<lparr>status = 200, code = 200, msg = ''data has been received'',
                    body_fields = [(''message'', CStr ''Logged out successfully'')]\<rparr>, st')))"

definition registration_route :: "deps \<Rightarrow> db \<Rightarrow> request \<Rightarrow> insert_user \<Rightarrow> route_result" where
  "registration_route d st req body =
     (case authorization d st req of
        Rejected r \<Rightarrow> (Inr r, st)
      | Next tokenData \<Rightarrow>
          (case createUser d st body of
             (Inl e, st') \<Rightarrow> (Inl e, st')
           | (Inr (message_text, userId), st') \<Rightarrow>
               (Inr \<lparr>status = 201, code = 201, msg = message_text,
                     body_fields = [(''userId'', CNum userId)]\<rparr>, st')))"

section \<open>Fixtures\<close>

text \<open>
  Stand-ins for the collaborators, used to run the model on concrete inputs: a signer
  that gives every user the token \<open>tok.alice\<close>, a hasher that prefixes \<open>h:\<close>, a mailer
  that always resolves, and validators that accept an address containing \<open>@\<close> and a
  payload whose two passwords agree and have at least 8 characters.
\<close>

definition demo_deps :: deps where
  "demo_deps =
     \<lparr>JWT_SECRET_ACCESS_TOKEN = ''s3cret'',
      jwt_verify = demo_jwt_verify,
      jwt_sign = (\<lambda>payload key expiresIn. ''tok.alice''),
      hashing_hash = (\<lambda>p. ''h:'' @ p),
      hashing_verify = (\<lambda>h p. h = ''h:'' @ p),
      sendEmail = (\<lambda>to subject body. True),
      zod_email = (\<lambda>e. CHR ''@'' \<in> set e),
      insert_schema_ok = (\<lambda>b. in_password b = in_confirmPassword b \<and> 8 \<le> length (in_password b)
                              \<and> CHR ''@'' \<in> set (in_email b) \<and> 2 \<le> length (in_name b))\<rparr>"

definition alice :: user where
  "alice = \<lparr>u_id = 1, u_name = ''Alice'', u_email = ''alice@example.com'',
            u_password = Some ''h:Passw0rd!'', u_passwordToken = None,
            u_isActive = True, u_isEmailVerified = True, u_isDeleted = False\<rparr>"

definition bob :: user where
  "bob = \<lparr>u_id = 2, u_name = ''Bob'', u_email = ''bob@example.com'',
          u_password = Some ''h:Secret123'', u_passwordToken = None,
          u_isActive = False, u_isEmailVerified = False, u_isDeleted = True\<rparr>"

definition demo_db :: db where
  "demo_db = \<lparr>users = [alice, bob], sessions = [], user_id_seq = 3, session_id_seq = 1\<rparr>"

text \<open>
  Further fixtures: the database after Alice has logged in and after she has logged out
  again, a request that carries a token in the Authorization header only, registration
  payloads for a new address and for the two stored ones, and the database with a
  reset token stored for Alice, before and after her password is reset.
\<close>

definition logged_in_db :: db where
  "logged_in_db =
     demo_db\<lparr>sessions := [\<lparr>s_id = 1, s_userId = 1, s_token = ''tok.alice''\<rparr>],
             session_id_seq := 2\<rparr>"

definition logged_out_db :: db where
  "logged_out_db = demo_db\<lparr>sessions := [], session_id_seq := 2\<rparr>"

definition req_bearer :: "string \<Rightarrow> request" where
  "req_bearer tok = \<lparr>query_token = None, cookies_token = None,
                     headers_authorization = Some (''Bearer '' @ tok)\<rparr>"

definition carol_payload :: insert_user where
  "carol_payload =
     \<lparr>in_id = None, in_name = ''Carol'', in_email = ''carol@example.com'',
      in_password = ''Passw0rd!'', in_confirmPassword = ''Passw0rd!'', in_passwordToken = None,
      in_isActive = None, in_isEmailVerified = None, in_isDeleted = None\<rparr>"

definition bob_again :: insert_user where
  "bob_again = carol_payload\<lparr>in_name := ''Bob'', in_email := ''bob@example.com''\<rparr>"

definition alice_again :: insert_user where
  "alice_again = carol_payload\<lparr>in_name := ''Alice'', in_email := ''alice@example.com''\<rparr>"

definition reset_db :: "string \<Rightarrow> db" where
  "reset_db tok = demo_db\<lparr>users := [alice\<lparr>u_passwordToken := Some tok\<rparr>, bob]\<rparr>"

definition after_reset_db :: db where
  "after_reset_db = demo_db\<lparr>users := [alice\<lparr>u_password := Some ''h:NewPassw0rd''\<rparr>, bob]\<rparr>"

section \<open>Properties of the token codec\<close>

lemma split_space_no_space:
  "CHR '' '' \<notin> set s \<Longrightarrow> split_space s = [s]"
  by (induction s) auto

lemma split_space_two:
  "CHR '' '' \<notin> set a \<Longrightarrow> CHR '' '' \<notin> set b \<Longrightarrow> split_space (a @ CHR '' '' # b) = [a, b]"
  by (induction a) (auto simp: split_space_no_space)

lemma extract_req_bearer:
  "CHR '' '' \<notin> set tok \<Longrightarrow> extract_token (req_bearer tok) = Some tok"
  using split_space_two [of "''Bearer''" tok]
  by (simp add: extract_token_def req_bearer_def allowedAuthorize_def)

text \<open>
  Claim C2, as the code has it. The order of the sources is query parameter, cookie,
  Authorization header: a non-empty query token is returned whatever the cookie and
  the header hold; the cookie is used only when the query yields no token; the header
  value (second of exactly two space-separated parts, the first being \<open>Bearer\<close>, \<open>JWT\<close> or
  \<open>Token\<close>) is used only when both the query and the cookie yield none.
\<close>

theorem extract_precedence:
  "(truthy (query_token req) \<longrightarrow> extract_token req = query_token req) \<and>
   (\<not> truthy (query_token req) \<and> truthy (cookies_token req) \<longrightarrow>
      extract_token req = cookies_token req) \<and>
   (\<not> truthy (query_token req) \<and> \<not> truthy (cookies_token req) \<and>
    headers_authorization req = Some (scheme @ CHR '' '' # tok) \<and>
    scheme \<in> set allowedAuthorize \<and> CHR '' '' \<notin> set tok \<longrightarrow>
      extract_token req = Some tok)"
proof -
  have sch: "CHR '' '' \<notin> set scheme" if "scheme \<in> set allowedAuthorize"
    using that by (auto simp: allowedAuthorize_def)
  show ?thesis
    by (auto simp: extract_token_def split_space_two sch)
qed

text \<open>
  The three cases of C2 on requests that carry \<open>q\<close> in the query, \<open>c\<close> in the cookie and
  \<open>Bearer h\<close> in the header, then lose the query token, then the cookie.
\<close>

theorem extract_precedence_witness:
  "extract_token \<lparr>query_token = Some ''q'', cookies_token = Some ''c'',
            headers_authorization = Some ''Bearer h''\<rparr> = Some ''q'' \<and>
   extract_token \<lparr>query_token = None, cookies_token = Some ''c'',
            headers_authorization = Some ''Bearer h''\<rparr> = Some ''c'' \<and>
   extract_token \<lparr>query_token = None, cookies_token = None,
            headers_authorization = Some ''Bearer h''\<rparr> = Some ''h''"
  using extract_precedence
    [of "\<lparr>query_token = Some ''q'', cookies_token = Some ''c'',
          headers_authorization = Some ''Bearer h''\<rparr>" "''Bearer''" "''h''"]
    extract_precedence
    [of "\<lparr>query_token = None, cookies_token = Some ''c'',
          headers_authorization = Some ''Bearer h''\<rparr>" "''Bearer''" "''h''"]
    extract_precedence
    [of "\<lparr>query_token = None, cookies_token = None,
          headers_authorization = Some ''Bearer h''\<rparr>" "''Bearer''" "''h''"]
  by (simp add: allowedAuthorize_def)

text \<open>
  C2 as stated fails: with a token in all three sources the Authorization header's
  value \<open>h\<close> is not what extraction returns; the query parameter's value \<open>q\<close> is.
\<close>

theorem extract_header_first_counterexample:
  "extract_token \<lparr>query_token = Some ''q'', cookies_token = Some ''c'',
            headers_authorization = Some ''Bearer h''\<rparr> \<noteq> Some ''h'' \<and>
   extract_token \<lparr>query_token = Some ''q'', cookies_token = Some ''c'',
            headers_authorization = Some ''Bearer h''\<rparr> = Some ''q''"
  by (simp add: extract_token_def)

text \<open>
  Claim C8, as the code has it. For every behaviour of the package, every token and
  every key, \<open>verify\<close> returns a value (it is a total function whose last \<open>catch\<close> branch
  takes every thrown object): either the decoded claim, or a failure with \<open>data\<close> null
  whose message is \<open>unauthorized\<close> (the empty token, which is answered before the
  package is called) or starts with one of the four labels expired, token error,
  not-before, unknown. Its only inputs are the token, the key and the package: it reads
  no stored state.
\<close>

theorem verify_total_typed:
  "(\<exists>result. jv token secretKey = Returns result \<and>
      verify jv token secretKey = \<lparr>data = Some result, message = ''token is verify''\<rparr>) \<or>
   (token = [] \<and> verify jv token secretKey = \<lparr>data = None, message = ''unauthorized''\<rparr>) \<or>
   (\<exists>err. jv token secretKey = Throws err \<and> spec_failure_kinds (verify jv token secretKey))"
proof (cases "token = []")
  case True
  then show ?thesis by (simp add: verify_def)
next
  case False
  show ?thesis
  proof (cases "jv token secretKey")
    case (Returns result)
    with False show ?thesis by (simp add: verify_def)
  next
    case (Throws err)
    with False show ?thesis
      by (simp add: verify_def spec_failure_kinds_def starts_with_def)
  qed
qed

text \<open>
  C8 as stated fails at the empty token: the result has null data, but it is none of
  the four failure kinds (its message is \<open>unauthorized\<close>).
\<close>

theorem verify_empty_token_counterexample:
  "data (verify demo_jwt_verify [] ''s3cret'') = None \<and>
   message (verify demo_jwt_verify [] ''s3cret'') = ''unauthorized'' \<and>
   \<not> spec_failure_kinds (verify demo_jwt_verify [] ''s3cret'')"
  by (simp add: verify_def spec_failure_kinds_def starts_with_def)

section \<open>The session table\<close>

lemma map_update_userId:
  "map s_userId (map (\<lambda>r. if s_userId r = uid then r\<lparr>s_userId := uid, s_token := tok\<rparr> else r) xs)
     = map s_userId xs"
  by (induction xs) auto

lemma find_update_token:
  "find (\<lambda>r. s_userId r = uid) xs = Some row \<Longrightarrow>
   find (\<lambda>r. s_userId r = uid)
        (map (\<lambda>r. if s_userId r = uid then r\<lparr>s_userId := uid, s_token := tok\<rparr> else r) xs)
     = Some (row\<lparr>s_userId := uid, s_token := tok\<rparr>)"
  by (induction xs) (auto split: if_splits)

lemma find_append_new:
  "find P xs = None \<Longrightarrow> P y \<Longrightarrow> find P (xs @ [y]) = Some y"
  by (induction xs) (auto split: if_splits)

lemma insert_session_row_invariant:
  "one_session_per_user st \<Longrightarrow> getByUserId st uid = None \<Longrightarrow>
   one_session_per_user (snd (insert_session_row st uid tok))"
  by (auto simp: one_session_per_user_def insert_session_row_def getByUserId_def
        find_None_iff Let_def)

lemma update_invariant:
  "one_session_per_user st \<Longrightarrow>
   one_session_per_user (snd (createOrUpdateSession_write st uid tok (Some found)))"
  by (simp add: one_session_per_user_def createOrUpdateSession_write_def map_update_userId
        del: map_map)

lemma createOrUpdateSession_write_invariant:
  "one_session_per_user st \<Longrightarrow> (session = None \<longrightarrow> getByUserId st uid = None) \<Longrightarrow>
   one_session_per_user (snd (createOrUpdateSession_write st uid tok session))"
proof (cases session)
  case None
  assume "one_session_per_user st" "session = None \<longrightarrow> getByUserId st uid = None"
  with None show ?thesis
    by (simp add: createOrUpdateSession_write_def insert_session_row_invariant)
next
  case (Some found)
  assume "one_session_per_user st"
  with Some show ?thesis by (simp add: update_invariant)
qed

lemma createOrUpdateSession_invariant:
  "one_session_per_user st \<Longrightarrow> one_session_per_user (snd (createOrUpdateSession st uid tok))"
proof (cases "int4 uid")
  case False
  assume "one_session_per_user st"
  with False show ?thesis
    by (simp add: createOrUpdateSession_def createOrUpdateSession_select_def)
next
  case True
  assume inv: "one_session_per_user st"
  have "createOrUpdateSession st uid tok =
          createOrUpdateSession_write st uid tok (getByUserId st uid)"
    using True
    by (simp add: createOrUpdateSession_def createOrUpdateSession_select_def getByUserId_def)
  then show ?thesis
    using createOrUpdateSession_write_invariant [OF inv, of "getByUserId st uid" uid tok]
    by simp
qed

lemma deleteSession_invariant:
  "one_session_per_user st \<Longrightarrow> one_session_per_user (snd (deleteSession st tok))"
  by (simp add: one_session_per_user_def deleteSession_def distinct_map_filter)

lemma createOrUpdateSession_success:
  assumes "fst (createOrUpdateSession st uid tok) = Inr row"
  shows "(\<exists>r. getByUserId (snd (createOrUpdateSession st uid tok)) uid = Some r \<and>
              s_token r = tok) \<and>
         length (sessions (snd (createOrUpdateSession st uid tok))) =
           (if getByUserId st uid = None then length (sessions st) + 1
            else length (sessions st))"
proof (cases "find (\<lambda>r. s_userId r = uid) (sessions st)")
  case None
  with assms show ?thesis
    by (auto simp: createOrUpdateSession_def createOrUpdateSession_select_def
          createOrUpdateSession_write_def insert_session_row_def getByUserId_def
          find_append_new Let_def split: if_splits)
next
  case (Some found)
  with assms show ?thesis
    by (auto simp: createOrUpdateSession_def createOrUpdateSession_select_def
          createOrUpdateSession_write_def getByUserId_def find_update_token
          split: if_splits)
qed

lemma createOrUpdateSession_failure:
  assumes "fst (createOrUpdateSession st uid tok) = Inl e"
  shows "sessions (snd (createOrUpdateSession st uid tok)) = sessions st"
proof (cases "find (\<lambda>r. s_userId r = uid) (sessions st)")
  case None
  with assms show ?thesis
    by (auto simp: createOrUpdateSession_def createOrUpdateSession_select_def
          createOrUpdateSession_write_def insert_session_row_def Let_def split: if_splits)
next
  case (Some found)
  with assms show ?thesis
    by (auto simp: createOrUpdateSession_def createOrUpdateSession_select_def
          createOrUpdateSession_write_def split: if_splits)
qed

lemma createOrUpdateSession_no_user:
  "uid \<notin> set (map u_id (users st)) \<Longrightarrow> getByUserId st uid = None \<Longrightarrow>
   \<exists>e. fst (createOrUpdateSession st uid tok) = Inl e"
  by (auto simp: createOrUpdateSession_def createOrUpdateSession_select_def
        createOrUpdateSession_write_def insert_session_row_def getByUserId_def Let_def)

lemma login_route_invariant:
  "one_session_per_user (snd (login_route d st email password))" if "one_session_per_user st"
proof (cases "userLogin d st email password")
  case (Inl e)
  then show ?thesis using that by (simp add: login_route_def)
next
  case (Inr login)
  have "snd (login_route d st email password) =
          snd (createOrUpdateSession st (lr_userId login) (lr_token login))"
    using Inr by (simp add: login_route_def split: prod.splits sum.splits)
  then show ?thesis using that createOrUpdateSession_invariant by simp
qed

lemma logout_route_invariant:
  "one_session_per_user st \<Longrightarrow> one_session_per_user (snd (logout_route d st req))"
  using deleteSession_invariant
  by (auto simp: logout_route_def split: gate.splits option.splits)

lemma deleteSession_absent:
  "getByToken st tok = None \<Longrightarrow> deleteSession st tok = ([], st)"
proof -
  assume "getByToken st tok = None"
  then have n: "\<forall>r \<in> set (sessions st). s_token r \<noteq> tok"
    by (auto simp: getByToken_def find_None_iff)
  then have "filter (\<lambda>r. s_token r = tok) (sessions st) = []"
    and "filter (\<lambda>r. s_token r \<noteq> tok) (sessions st) = sessions st"
    by (auto simp: filter_empty_conv filter_id_conv)
  then show ?thesis by (simp add: deleteSession_def)
qed

text \<open>
  Claim C6, as the code has it. From a session table with at most one row per user
  id:
  \<^item> the write of a login's create-or-update leaves at most one row per user id
    provided the user whom its select found without a row still has none when the
    write runs; in particular a create-or-update that no other request interrupts
    between its select and its write preserves the invariant, and so does the login
    route run that way;
  \<^item> when the create-or-update succeeds, the row of the user holds the new token and
    the table has one more row exactly when the user had none; when it fails (no user
    row with that id, or an id out of range) the table is as it was;
  \<^item> the delete-by-token of a logout, and the logout route, preserve the invariant.
\<close>

theorem session_invariant_preserved:
  assumes "one_session_per_user st"
  shows "((session = None \<longrightarrow> getByUserId st uid = None) \<longrightarrow>
            one_session_per_user (snd (createOrUpdateSession_write st uid tok session))) \<and>
         one_session_per_user (snd (createOrUpdateSession st uid tok)) \<and>
         (\<forall>row. fst (createOrUpdateSession st uid tok) = Inr row \<longrightarrow>
            (\<exists>r. getByUserId (snd (createOrUpdateSession st uid tok)) uid = Some r \<and>
                 s_token r = tok) \<and>
            length (sessions (snd (createOrUpdateSession st uid tok))) =
              (if getByUserId st uid = None then length (sessions st) + 1
               else length (sessions st))) \<and>
         (\<forall>e. fst (createOrUpdateSession st uid tok) = Inl e \<longrightarrow>
            sessions (snd (createOrUpdateSession st uid tok)) = sessions st) \<and>
         one_session_per_user (snd (deleteSession st tok')) \<and>
         one_session_per_user (snd (login_route d st email password)) \<and>
         one_session_per_user (snd (logout_route d st req))"
proof (intro conjI impI allI)
  assume "session = None \<longrightarrow> getByUserId st uid = None"
  with assms show "one_session_per_user (snd (createOrUpdateSession_write st uid tok session))"
    by (rule createOrUpdateSession_write_invariant)
next
  from assms show "one_session_per_user (snd (createOrUpdateSession st uid tok))"
    by (rule createOrUpdateSession_invariant)
next
  fix row
  assume "fst (createOrUpdateSession st uid tok) = Inr row"
  then show "\<exists>r. getByUserId (snd (createOrUpdateSession st uid tok)) uid = Some r \<and>
                 s_token r = tok"
    by (rule createOrUpdateSession_success [THEN conjunct1])
next
  fix row
  assume "fst (createOrUpdateSession st uid tok) = Inr row"
  then show "length (sessions (snd (createOrUpdateSession st uid tok))) =
              (if getByUserId st uid = None then length (sessions st) + 1
               else length (sessions st))"
    by (rule createOrUpdateSession_success [THEN conjunct2])
next
  fix e
  assume "fst (createOrUpdateSession st uid tok) = Inl e"
  then show "sessions (snd (createOrUpdateSession st uid tok)) = sessions st"
    by (rule createOrUpdateSession_failure)
next
  from assms show "one_session_per_user (snd (deleteSession st tok'))"
    by (rule deleteSession_invariant)
next
  from assms show "one_session_per_user (snd (login_route d st email password))"
    by (rule login_route_invariant)
next
  from assms show "one_session_per_user (snd (logout_route d st req))"
    by (rule logout_route_invariant)
qed

text \<open>
  C6 on the empty table, where Alice's first login finds no row and its write still
  runs on a table without one, and on the table that holds Alice's session: a second
  login of Alice (user 1) overwrites the row's token; a create-or-update for user 99,
  who has no user row, fails on the foreign key and leaves the table as it is; a
  logout with the stored token removes the row.
\<close>

theorem session_invariant_preserved_witness:
  "one_session_per_user demo_db \<and> getByUserId demo_db 1 = None \<and>
   one_session_per_user (snd (createOrUpdateSession_write demo_db 1 ''tok.a'' None)) \<and>
   one_session_per_user logged_in_db \<and>
   createOrUpdateSession logged_in_db 1 ''tok.new'' =
     (Inr \<lparr>s_id = 1, s_userId = 1, s_token = ''tok.alice''\<rparr>,
      logged_in_db\<lparr>sessions := [\<lparr>s_id = 1, s_userId = 1, s_token = ''tok.new''\<rparr>]\<rparr>) \<and>
   one_session_per_user (snd (createOrUpdateSession logged_in_db 1 ''tok.new'')) \<and>
   length (sessions (snd (createOrUpdateSession logged_in_db 1 ''tok.new''))) = 1 \<and>
   fst (createOrUpdateSession logged_in_db 99 ''tok.x'') =
     Inl (PostgresError FOREIGN_KEY_VIOLATION) \<and>
   sessions (snd (createOrUpdateSession logged_in_db 99 ''tok.x'')) = sessions logged_in_db \<and>
   one_session_per_user (snd (deleteSession logged_in_db ''tok.alice''))"
proof -
  have inv: "one_session_per_user logged_in_db"
    by (simp add: one_session_per_user_def logged_in_db_def demo_db_def)
  have upd: "createOrUpdateSession logged_in_db 1 ''tok.new'' =
     (Inr \<lparr>s_id = 1, s_userId = 1, s_token = ''tok.alice''\<rparr>,
      logged_in_db\<lparr>sessions := [\<lparr>s_id = 1, s_userId = 1, s_token = ''tok.new''\<rparr>]\<rparr>)"
    by (simp add: createOrUpdateSession_def createOrUpdateSession_select_def
          createOrUpdateSession_write_def int4_def logged_in_db_def demo_db_def)
  have fk: "fst (createOrUpdateSession logged_in_db 99 ''tok.x'') =
     Inl (PostgresError FOREIGN_KEY_VIOLATION)"
    by (simp add: createOrUpdateSession_def createOrUpdateSession_select_def
          createOrUpdateSession_write_def insert_session_row_def int4_def logged_in_db_def
          demo_db_def alice_def bob_def Let_def)
  note alice = session_invariant_preserved [OF inv, of None 1 "''tok.new''" "''tok.alice''"]
  note nobody = session_invariant_preserved [OF inv, of None 99 "''tok.x''" "''tok.alice''"]
  have kept: "one_session_per_user (snd (createOrUpdateSession logged_in_db 1 ''tok.new''))"
    by (rule alice [THEN conjunct2, THEN conjunct1])
  have len: "length (sessions (snd (createOrUpdateSession logged_in_db 1 ''tok.new''))) = 1"
    unfolding upd by simp
  have same: "sessions (snd (createOrUpdateSession logged_in_db 99 ''tok.x'')) =
                sessions logged_in_db"
    by (rule nobody [THEN conjunct2, THEN conjunct2, THEN conjunct2, THEN conjunct1,
                     rule_format, OF fk])
  have del: "one_session_per_user (snd (deleteSession logged_in_db ''tok.alice''))"
    by (rule alice [THEN conjunct2, THEN conjunct2, THEN conjunct2, THEN conjunct2,
                    THEN conjunct1])
  have inv0: "one_session_per_user demo_db"
    by (simp add: one_session_per_user_def demo_db_def)
  have none0: "getByUserId demo_db 1 = None"
    by (simp add: getByUserId_def demo_db_def)
  have first: "one_session_per_user (snd (createOrUpdateSession_write demo_db 1 ''tok.a'' None))"
    by (rule session_invariant_preserved
              [OF inv0, of None 1 "''tok.a''" "''tok.alice''", THEN conjunct1, rule_format])
       (rule none0)
  from inv0 none0 first inv upd kept len fk same del show ?thesis by (intro conjI)
qed

text \<open>
  C6 as stated fails for two first logins of Alice that interleave. The table is empty
  and Alice (user 1) exists. Both logins run their select and find no row; the first
  then inserts its row, and the second, still acting on what its select found, inserts
  another: two rows for user 1.
\<close>

theorem interleaved_logins_counterexample:
  "one_session_per_user demo_db \<and>
   createOrUpdateSession_select demo_db 1 = Inr None \<and>
   sessions (snd (createOrUpdateSession_write
                    (snd (createOrUpdateSession_write demo_db 1 ''tok.a'' None))
                    1 ''tok.b'' None)) =
     [\<lparr>s_id = 1, s_userId = 1, s_token = ''tok.a''\<rparr>,
      \<lparr>s_id = 2, s_userId = 1, s_token = ''tok.b''\<rparr>] \<and>
   \<not> one_session_per_user
        (snd (createOrUpdateSession_write
                (snd (createOrUpdateSession_write demo_db 1 ''tok.a'' None))
                1 ''tok.b'' None))"
proof -
  have inv: "one_session_per_user demo_db"
    by (simp add: one_session_per_user_def demo_db_def)
  have sel: "createOrUpdateSession_select demo_db 1 = Inr None"
    by (simp add: createOrUpdateSession_select_def int4_def demo_db_def)
  have first: "snd (createOrUpdateSession_write demo_db 1 ''tok.a'' None) =
     demo_db\<lparr>sessions := [\<lparr>s_id = 1, s_userId = 1, s_token = ''tok.a''\<rparr>],
             session_id_seq := 2\<rparr>"
    by (simp add: createOrUpdateSession_write_def insert_session_row_def int4_def demo_db_def
          alice_def bob_def Let_def)
  have second: "sessions (snd (createOrUpdateSession_write
       (demo_db\<lparr>sessions := [\<lparr>s_id = 1, s_userId = 1, s_token = ''tok.a''\<rparr>],
                session_id_seq := 2\<rparr>) 1 ''tok.b'' None)) =
     [\<lparr>s_id = 1, s_userId = 1, s_token = ''tok.a''\<rparr>,
      \<lparr>s_id = 2, s_userId = 1, s_token = ''tok.b''\<rparr>]"
    by (simp add: createOrUpdateSession_write_def insert_session_row_def int4_def demo_db_def
          alice_def bob_def Let_def)
  from inv sel first second show ?thesis
    by (simp add: one_session_per_user_def)
qed

section \<open>The authorization gate\<close>

lemma header_token_req_bearer:
  "CHR '' '' \<notin> set tok \<Longrightarrow> header_token (req_bearer tok) = Some tok"
  using split_space_two [of "''Bearer''" tok]
  by (simp add: header_token_def req_bearer_def)

lemma authorization_Rejected_401:
  "authorization d st req = Rejected r \<Longrightarrow> status r = 401"
  by (auto simp: authorization_def NO_TOKEN_def INVALID_TOKEN_def NO_SESSION_def
        split: option.splits if_splits)

lemma authorization_no_token:
  "extract_token req = None \<Longrightarrow> authorization d st req = Rejected NO_TOKEN"
  by (simp add: authorization_def)

lemma authorization_invalid_token:
  "extract_token req = Some tok \<Longrightarrow>
   data (verify (jwt_verify d) tok (JWT_SECRET_ACCESS_TOKEN d)) = None \<Longrightarrow>
   \<exists>r. authorization d st req = Rejected r"
  by (simp add: authorization_def)

lemma authorization_no_session:
  "extract_token req = Some tok \<Longrightarrow> getByToken st tok = None \<Longrightarrow>
   \<exists>r. authorization d st req = Rejected r"
  by (simp add: authorization_def split: option.splits)

lemma authorization_Next:
  "authorization d st req = Next tokenData \<Longrightarrow>
   \<exists>tok. extract_token req = Some tok \<and>
         data (verify (jwt_verify d) tok (JWT_SECRET_ACCESS_TOKEN d)) = Some tokenData \<and>
         getByToken st tok \<noteq> None"
  by (auto simp: authorization_def split: option.splits if_splits)

lemma registration_route_Rejected:
  "authorization d st req = Rejected r \<Longrightarrow> registration_route d st req body = (Inr r, st)"
  by (simp add: registration_route_def)

lemma registration_route_Next:
  "authorization d st req = Next tokenData \<Longrightarrow>
   snd (registration_route d st req body) = snd (createUser d st body)"
  by (simp add: registration_route_def split: prod.splits sum.splits)

lemma createUser_carol:
  "map u_email (users (snd (createUser demo_deps logged_in_db carol_payload)))
     = [''alice@example.com'', ''bob@example.com'', ''carol@example.com'']"
  by (simp add: createUser_def getUserByEmail_def insert_user_row_def
        sendVerificationEmail_def generate_def set_passwordToken_def int4_def varchar_def
        demo_deps_def logged_in_db_def demo_db_def carol_payload_def alice_def bob_def Let_def)

lemma authorization_alice_logged_in:
  "authorization demo_deps logged_in_db (req_bearer ''tok.alice'') =
     Next (JwtPayload [(''email'', CStr ''alice@example.com''),
                       (''userId'', CNum 1), (''role'', CStr ''user'')])"
  by (simp add: authorization_def extract_req_bearer verify_def demo_deps_def
        demo_jwt_verify_def getByToken_def logged_in_db_def demo_db_def)

lemma authorization_alice_logged_out:
  "authorization demo_deps logged_out_db (req_bearer ''tok.alice'') = Rejected NO_SESSION"
  by (simp add: authorization_def extract_req_bearer verify_def demo_deps_def
        demo_jwt_verify_def getByToken_def logged_out_db_def demo_db_def)

text \<open>
  Claim C10. The registration route runs behind the authorization middleware: a request
  without a token, with a token that does not verify, or with a token that has no
  session row is answered with status 401 and the database is left as it was; so
  whenever the route changes the user table, the request carried a token that
  verifies and has a session row.
\<close>

theorem registration_gated:
  "(extract_token req = None \<or>
    (\<exists>tok. extract_token req = Some tok \<and>
       (data (verify (jwt_verify d) tok (JWT_SECRET_ACCESS_TOKEN d)) = None \<or>
        getByToken st tok = None)) \<longrightarrow>
      (\<exists>r. registration_route d st req body = (Inr r, st) \<and> status r = 401)) \<and>
   (users (snd (registration_route d st req body)) \<noteq> users st \<longrightarrow>
      (\<exists>tok tokenData. extract_token req = Some tok \<and>
         data (verify (jwt_verify d) tok (JWT_SECRET_ACCESS_TOKEN d)) = Some tokenData \<and>
         getByToken st tok \<noteq> None))"
proof (intro conjI impI)
  assume "extract_token req = None \<or>
    (\<exists>tok. extract_token req = Some tok \<and>
       (data (verify (jwt_verify d) tok (JWT_SECRET_ACCESS_TOKEN d)) = None \<or>
        getByToken st tok = None))"
  then obtain r where "authorization d st req = Rejected r"
    using authorization_no_token authorization_invalid_token authorization_no_session
    by blast
  then show "\<exists>r. registration_route d st req body = (Inr r, st) \<and> status r = 401"
    using registration_route_Rejected authorization_Rejected_401 by blast
next
  assume changed: "users (snd (registration_route d st req body)) \<noteq> users st"
  show "\<exists>tok tokenData. extract_token req = Some tok \<and>
         data (verify (jwt_verify d) tok (JWT_SECRET_ACCESS_TOKEN d)) = Some tokenData \<and>
         getByToken st tok \<noteq> None"
  proof (cases "authorization d st req")
    case (Rejected r)
    with changed show ?thesis by (simp add: registration_route_Rejected)
  next
    case (Next tokenData)
    then show ?thesis using authorization_Next by blast
  qed
qed

text \<open>
  C10 on two requests that carry Alice's token in the header: with no session row the
  registration of Carol is answered 401 and nothing is stored; with the session row
  present Carol's row is added.
\<close>

theorem registration_gated_witness:
  "getByToken logged_out_db ''tok.alice'' = None \<and>
   (\<exists>r. registration_route demo_deps logged_out_db (req_bearer ''tok.alice'') carol_payload
           = (Inr r, logged_out_db) \<and> status r = 401) \<and>
   map u_email (users (snd (registration_route demo_deps logged_in_db
                              (req_bearer ''tok.alice'') carol_payload)))
     = [''alice@example.com'', ''bob@example.com'', ''carol@example.com''] \<and>
   getByToken logged_in_db ''tok.alice'' \<noteq> None"
proof -
  have e: "extract_token (req_bearer ''tok.alice'') = Some ''tok.alice''"
    by (simp add: extract_req_bearer)
  have g: "getByToken logged_out_db ''tok.alice'' = None"
    by (simp add: getByToken_def logged_out_db_def demo_db_def)
  have u: "map u_email (users (snd (registration_route demo_deps logged_in_db
                              (req_bearer ''tok.alice'') carol_payload)))
     = [''alice@example.com'', ''bob@example.com'', ''carol@example.com'']"
    using registration_route_Next [OF authorization_alice_logged_in] createUser_carol
    by simp
  then have c: "users (snd (registration_route demo_deps logged_in_db
                              (req_bearer ''tok.alice'') carol_payload)) \<noteq> users logged_in_db"
    by (auto simp: logged_in_db_def demo_db_def alice_def bob_def)
  from registration_gated [of "req_bearer ''tok.alice''" demo_deps logged_out_db carol_payload]
    registration_gated [of "req_bearer ''tok.alice''" demo_deps logged_in_db carol_payload]
    e g u c
  show ?thesis by auto
qed

text \<open>
  Claim C3, as the code has it. A logout request whose token verifies but has no session
  row does not reach the logout handler: the gate answers it with status 401,
  \<open>Unauthorized, no valid session\<close>, and the database is unchanged. The delete of the
  session service is a no-op when no row matches the token: it returns no row and
  leaves the table as it is.
\<close>

theorem logout_without_session_rejected:
  assumes "extract_token req = Some tok" and "tok \<noteq> []"
    and "data (verify (jwt_verify d) tok (JWT_SECRET_ACCESS_TOKEN d)) = Some tokenData"
    and "tokenData \<noteq> JwtString []"
    and "getByToken st tok = None"
  shows "logout_route d st req = (Inr NO_SESSION, st) \<and> status NO_SESSION = 401 \<and>
         deleteSession st tok = ([], st)"
  using assms deleteSession_absent [of st tok]
  by (simp add: logout_route_def authorization_def NO_SESSION_def)

text \<open>C3 on Alice's token after her session row is gone.\<close>

theorem logout_without_session_rejected_witness:
  "extract_token (req_bearer ''tok.alice'') = Some ''tok.alice'' \<and>
   data (verify (jwt_verify demo_deps) ''tok.alice'' (JWT_SECRET_ACCESS_TOKEN demo_deps)) \<noteq> None \<and>
   getByToken logged_out_db ''tok.alice'' = None \<and>
   logout_route demo_deps logged_out_db (req_bearer ''tok.alice'') = (Inr NO_SESSION, logged_out_db) \<and>
   deleteSession logged_out_db ''tok.alice'' = ([], logged_out_db)"
proof -
  have e: "extract_token (req_bearer ''tok.alice'') = Some ''tok.alice''"
    by (simp add: extract_req_bearer)
  have v: "data (verify (jwt_verify demo_deps) ''tok.alice'' (JWT_SECRET_ACCESS_TOKEN demo_deps))
             = Some (JwtPayload [(''email'', CStr ''alice@example.com''),
                                 (''userId'', CNum 1), (''role'', CStr ''user'')])"
    by (simp add: verify_def demo_deps_def demo_jwt_verify_def)
  have g: "getByToken logged_out_db ''tok.alice'' = None"
    by (simp add: getByToken_def logged_out_db_def demo_db_def)
  from logout_without_session_rejected [OF e _ v _ g] e v g
  show ?thesis by simp
qed

text \<open>
  C3 as stated fails: Alice logs out with her token (status 200, the session row is
  deleted) and sends the same request again; the second answer is 401, not 200.
\<close>

theorem logout_deleted_session_counterexample:
  "logout_route demo_deps logged_in_db (req_bearer ''tok.alice'') =
     (Inr \<lparr>status = 200, code = 200, msg = ''data has been received'',
           body_fields = [(''message'', CStr ''Logged out successfully'')]\<rparr>, logged_out_db) \<and>
   logout_route demo_deps logged_out_db (req_bearer ''tok.alice'') =
     (Inr NO_SESSION, logged_out_db) \<and>
   status NO_SESSION = 401"
proof -
  have first: "logout_route demo_deps logged_in_db (req_bearer ''tok.alice'') =
     (Inr \<lparr>status = 200, code = 200, msg = ''data has been received'',
           body_fields = [(''message'', CStr ''Logged out successfully'')]\<rparr>,
      snd (deleteSession logged_in_db ''tok.alice''))"
    by (simp add: logout_route_def authorization_alice_logged_in header_token_req_bearer)
  have deleted: "snd (deleteSession logged_in_db ''tok.alice'') = logged_out_db"
    by (simp add: deleteSession_def logged_in_db_def logged_out_db_def)
  have second: "logout_route demo_deps logged_out_db (req_bearer ''tok.alice'') =
     (Inr NO_SESSION, logged_out_db)"
    by (simp add: logout_route_def authorization_alice_logged_out)
  have "status NO_SESSION = 401"
    by (simp add: NO_SESSION_def)
  with first deleted second show ?thesis by simp
qed

section \<open>Login\<close>

lemma loginSchema_parse_cases:
  "loginSchema_parse d email password = Inl ZodError \<or>
   loginSchema_parse d email password = Inr (email, password)"
  by (simp add: loginSchema_parse_def)

text \<open>
  Claim C5, as the code has it. \<open>userLogin\<close> first parses the credentials and fails with
  the validator's error when they do not parse. After that it fails with not-found when
  no user has the email; otherwise with bad-request, \<open>Your account is not active\<close>, when
  the user is inactive, whatever the password; otherwise with bad-request,
  \<open>Invalid username or password\<close>, when the password does not match. That last message
  is one fixed text, and it is returned only for an email that belongs to an active
  user.
\<close>

theorem userLogin_check_order:
  "(loginSchema_parse d email password = Inl ZodError \<longrightarrow>
      userLogin d st email password = Inl ZodError) \<and>
   (loginSchema_parse d email password = Inr (email, password) \<longrightarrow>
      (find (\<lambda>u. u_email u = email) (users st) = None \<longrightarrow>
         userLogin d st email password = Inl (NotFound ''Account not found or not registered'')) \<and>
      (\<forall>usr. find (\<lambda>u. u_email u = email) (users st) = Some usr \<longrightarrow>
         (\<not> u_isActive usr \<longrightarrow>
            userLogin d st email password = Inl (BadRequest ''Your account is not active'')) \<and>
         (u_isActive usr \<and>
          \<not> hashing_verify d (case u_password usr of None \<Rightarrow> [] | Some p \<Rightarrow> p) password \<longrightarrow>
            userLogin d st email password = Inl (BadRequest ''Invalid username or password'')))) \<and>
   (userLogin d st email password = Inl (BadRequest ''Invalid username or password'') \<longrightarrow>
      (\<exists>usr \<in> set (users st). u_email usr = email \<and> u_isActive usr))"
proof -
  have last: "\<exists>usr \<in> set (users st). u_email usr = email \<and> u_isActive usr"
    if "userLogin d st email password = Inl (BadRequest ''Invalid username or password'')"
  proof -
    from that obtain usr where f: "find (\<lambda>u. u_email u = email) (users st) = Some usr"
      and a: "u_isActive usr"
      by (auto simp: userLogin_def loginSchema_parse_def split: if_splits option.splits prod.splits)
    from f have "usr \<in> set (users st) \<and> u_email usr = email"
      by (auto simp: find_Some_iff)
    with a show ?thesis by blast
  qed
  show ?thesis
    using last by (auto simp: userLogin_def)
qed

text \<open>
  C5 on Bob, who is inactive, with a wrong password: the inactive account is reported,
  not the password.
\<close>

theorem userLogin_check_order_witness:
  "loginSchema_parse demo_deps ''bob@example.com'' ''wrongpass'' = Inr (''bob@example.com'', ''wrongpass'') \<and>
   find (\<lambda>u. u_email u = ''bob@example.com'') (users demo_db) = Some bob \<and>
   \<not> u_isActive bob \<and>
   userLogin demo_deps demo_db ''bob@example.com'' ''wrongpass'' = Inl (BadRequest ''Your account is not active'')"
proof -
  have p: "loginSchema_parse demo_deps ''bob@example.com'' ''wrongpass'' = Inr (''bob@example.com'', ''wrongpass'')"
    by (simp add: loginSchema_parse_def demo_deps_def)
  have f: "find (\<lambda>u. u_email u = ''bob@example.com'') (users demo_db) = Some bob"
    by (simp add: demo_db_def alice_def bob_def)
  have a: "\<not> u_isActive bob" by (simp add: bob_def)
  from userLogin_check_order [of demo_deps "''bob@example.com''" "''wrongpass''" demo_db] p f a
  show ?thesis by blast
qed

text \<open>
  C5 as stated fails: the login of the inactive Bob with his own password throws
  \<open>ErrorResponse.BadRequest\<close>, not \<open>ErrorResponse.Forbidden\<close>.
\<close>

theorem userLogin_inactive_counterexample:
  "userLogin demo_deps demo_db ''bob@example.com'' ''Secret123'' =
     Inl (BadRequest ''Your account is not active'') \<and>
   userLogin demo_deps demo_db ''bob@example.com'' ''Secret123'' \<noteq>
     Inl (Forbidden ''Your account is not active'')"
  by (simp add: userLogin_def loginSchema_parse_def demo_deps_def demo_db_def alice_def bob_def)


section \<open>Registration\<close>

lemma getUserByEmail_Some_mem:
  "getUserByEmail st email = Some u \<Longrightarrow> email \<in> set (map u_email (users st))"
  by (auto simp: getUserByEmail_def find_Some_iff)

lemma insert_user_row_duplicate:
  "in_email v \<in> set (map u_email (users st)) \<Longrightarrow>
   (\<exists>e. fst (insert_user_row st v h) = Inl e) \<and>
   users (snd (insert_user_row st v h)) = users st"
  by (auto simp: insert_user_row_def Let_def split: option.splits)

lemma createUser_live_duplicate:
  "insert_schema_ok d body \<Longrightarrow> getUserByEmail st (in_email body) \<noteq> None \<Longrightarrow>
   createUser d st body = (Inl (BadRequest ''User already exists''), st)"
  by (auto simp: createUser_def)

text \<open>
  Whatever the payload, a registration with the email of a stored user (soft-deleted or
  not) ends in an error and adds no row.
\<close>

lemma createUser_existing_email_no_insert:
  assumes "in_email body \<in> set (map u_email (users st))"
  shows "(\<exists>e. fst (createUser d st body) = Inl e) \<and>
         users (snd (createUser d st body)) = users st"
proof (cases "insert_schema_ok d body \<and> getUserByEmail st (in_email body) = None")
  case False
  then show ?thesis
    using createUser_live_duplicate [of d body st] by (auto simp: createUser_def)
next
  case True
  obtain r st1 where ins: "insert_user_row st body (hashing_hash d (in_password body)) = (r, st1)"
    by (cases "insert_user_row st body (hashing_hash d (in_password body))")
  from insert_user_row_duplicate [OF assms, of "hashing_hash d (in_password body)"] ins
  obtain e where r: "r = Inl e" and u: "users st1 = users st" by auto
  from True ins r have "createUser d st body = (Inl e, st1)"
    by (simp add: createUser_def Let_def)
  with u show ?thesis by simp
qed

text \<open>
  Claim C4 fails on the code. A registration whose email already belongs to a stored
  user should fail with bad-request, and it does for Alice, who is not deleted: the
  answer is \<open>User already exists\<close> and the database is untouched. Bob is soft-deleted:
  the lookup before the insert skips him, the payload passes the check for an existing
  user, and the insert runs into the unique constraint on \<open>email\<close>. The registration
  ends in the database driver's unique-violation error, not in bad-request (no row is
  added; one value of the id sequence is used up).
\<close>

theorem createUser_soft_deleted_unique_violation:
  "in_email bob_again \<in> set (map u_email (users demo_db)) \<and>
   insert_schema_ok demo_deps bob_again \<and>
   getUserByEmail demo_db (in_email bob_again) = None \<and>
   createUser demo_deps demo_db bob_again =
     (Inl (PostgresError UNIQUE_VIOLATION), demo_db\<lparr>user_id_seq := 4\<rparr>) \<and>
   createUser demo_deps demo_db alice_again =
     (Inl (BadRequest ''User already exists''), demo_db)"
proof -
  have m: "in_email bob_again \<in> set (map u_email (users demo_db))"
    by (simp add: bob_again_def carol_payload_def demo_db_def alice_def bob_def)
  have ok: "insert_schema_ok demo_deps bob_again"
    by (simp add: demo_deps_def bob_again_def carol_payload_def)
  have g: "getUserByEmail demo_db (in_email bob_again) = None"
    by (simp add: getUserByEmail_def bob_again_def carol_payload_def demo_db_def alice_def
          bob_def)
  have b: "createUser demo_deps demo_db bob_again =
     (Inl (PostgresError UNIQUE_VIOLATION), demo_db\<lparr>user_id_seq := 4\<rparr>)"
    by (simp add: createUser_def getUserByEmail_def insert_user_row_def int4_def varchar_def
          demo_deps_def demo_db_def bob_again_def carol_payload_def alice_def bob_def Let_def)
  have a: "createUser demo_deps demo_db alice_again =
     (Inl (BadRequest ''User already exists''), demo_db)"
    by (simp add: createUser_def getUserByEmail_def demo_deps_def demo_db_def alice_again_def
          carol_payload_def alice_def bob_def)
  from m ok g b a show ?thesis by (intro conjI)
qed

section \<open>Password reset\<close>

lemma validateResetToken_iff:
  "validateResetToken d st email tok \<longleftrightarrow>
     (\<exists>usr. find (\<lambda>u. u_email u = email) (users st) = Some usr \<and>
            tok \<noteq> [] \<and> u_passwordToken usr = Some tok)"
proof (cases "find (\<lambda>u. u_email u = email) (users st)")
  case None
  then show ?thesis by (simp add: validateResetToken_def)
next
  case (Some usr)
  then show ?thesis
    by (cases "u_passwordToken usr") (auto simp: validateResetToken_def)
qed

lemma find_after_reset:
  "find (\<lambda>u. u_email u = email) xs = Some usr \<Longrightarrow>
   find (\<lambda>u. u_email u = email) (map (reset_row email h) xs) = Some (reset_row email h usr)"
proof (induction xs)
  case Nil
  then show ?case by simp
next
  case (Cons x xs)
  then show ?case by (cases "u_email x = email") (simp_all add: reset_row_def)
qed

lemma reset_row_cleared:
  "u \<in> set (map (reset_row email h) xs) \<Longrightarrow> u_email u = email \<Longrightarrow>
   u_passwordToken u = None \<and> u_isEmailVerified u \<and> u_password u = Some h"
proof -
  assume "u \<in> set (map (reset_row email h) xs)" and e: "u_email u = email"
  then obtain x where u: "u = reset_row email h x" by auto
  show ?thesis
  proof (cases "u_email x = email")
    case True
    then show ?thesis by (simp add: u reset_row_def)
  next
    case False
    with e u show ?thesis by (simp add: reset_row_def)
  qed
qed

lemma find_Some_mem:
  "find P xs = Some y \<Longrightarrow> y \<in> set xs \<and> P y"
  by (induction xs) (auto split: if_splits)

lemma resetPassword_valid:
  "validateResetToken d st email tok \<Longrightarrow> varchar 255 (hashing_hash d password) \<Longrightarrow>
   snd (resetPassword d st email password tok) =
     st\<lparr>users := map (reset_row email (hashing_hash d password)) (users st)\<rparr>"
  by (cases "sendConfirmationEmail d email") (simp_all add: resetPassword_def Let_def)

lemma resetPassword_invalid:
  "\<not> validateResetToken d st email tok \<Longrightarrow>
   resetPassword d st email password tok = (Inl (BadRequest ''Invalid or expired token''), st)"
  by (simp add: resetPassword_def)

lemma resetPassword_success_valid:
  "resetPassword d st email password tok = (Inr r, st') \<Longrightarrow> validateResetToken d st email tok"
  by (rule ccontr) (simp add: resetPassword_invalid)

lemma resetPassword_success_fits:
  "resetPassword d st email password tok = (Inr r, st') \<Longrightarrow>
   varchar 255 (hashing_hash d password)"
  by (rule ccontr) (simp add: resetPassword_def Let_def split: if_splits)

text \<open>
  Claim C7. After a successful \<open>resetPassword\<close> the row of the email exists, every row
  of the email has its reset token cleared and its email-verified flag set, and a
  further \<open>resetPassword\<close> for the same email with the same token, whatever the new
  password, fails with bad-request \<open>Invalid or expired token\<close> and leaves the database
  as it is.
\<close>

theorem resetPassword_clears_token:
  assumes "resetPassword d st email password tok = (Inr r, st')"
  shows "(\<exists>u \<in> set (users st'). u_email u = email) \<and>
         (\<forall>u \<in> set (users st'). u_email u = email \<longrightarrow>
            u_passwordToken u = None \<and> u_isEmailVerified u) \<and>
         resetPassword d st' email password' tok =
           (Inl (BadRequest ''Invalid or expired token''), st')"
proof -
  let ?h = "hashing_hash d password"
  from assms have v: "validateResetToken d st email tok"
    by (rule resetPassword_success_valid)
  then obtain usr where f: "find (\<lambda>u. u_email u = email) (users st) = Some usr"
    unfolding validateResetToken_iff by blast
  from assms have fits: "varchar 255 ?h"
    by (rule resetPassword_success_fits)
  from assms have "st' = snd (resetPassword d st email password tok)" by simp
  with v fits have "st' = st\<lparr>users := map (reset_row email ?h) (users st)\<rparr>"
    by (simp only: resetPassword_valid)
  then have us: "users st' = map (reset_row email ?h) (users st)" by simp
  from f have f': "find (\<lambda>u. u_email u = email) (users st') = Some (reset_row email ?h usr)"
    unfolding us by (rule find_after_reset)
  have "u_email usr = email"
    using find_Some_mem [OF f] by blast
  then have tokNone: "u_passwordToken (reset_row email ?h usr) = None"
    by (simp add: reset_row_def)
  from f' have ex: "\<exists>u \<in> set (users st'). u_email u = email"
    using find_Some_mem [OF f'] by blast
  have all: "\<forall>u \<in> set (users st'). u_email u = email \<longrightarrow>
            u_passwordToken u = None \<and> u_isEmailVerified u"
    unfolding us using reset_row_cleared by blast
  have "\<not> validateResetToken d st' email tok"
    unfolding validateResetToken_iff using f' tokNone by simp
  then have "resetPassword d st' email password' tok =
           (Inl (BadRequest ''Invalid or expired token''), st')"
    by (rule resetPassword_invalid)
  with ex all show ?thesis by blast
qed

lemma demo_hash: "hashing_hash demo_deps p = ''h:'' @ p"
  by (simp add: demo_deps_def)

lemma demo_sendEmail: "sendEmail demo_deps recipient subject body"
  by (simp add: demo_deps_def)

lemma reset_db_valid:
  "validateResetToken demo_deps (reset_db tok) ''alice@example.com'' tok = (tok \<noteq> [])"
  by (simp add: validateResetToken_def reset_db_def demo_db_def alice_def)

lemma reset_db_update:
  "reset_db tok\<lparr>users := map (reset_row ''alice@example.com'' ''h:NewPassw0rd'')
                               (users (reset_db tok))\<rparr> = after_reset_db"
  by (simp add: reset_row_def reset_db_def after_reset_db_def demo_db_def alice_def bob_def)

lemma reset_db_result:
  "tok \<noteq> [] \<Longrightarrow>
   resetPassword demo_deps (reset_db tok) ''alice@example.com'' ''NewPassw0rd'' tok
     = (Inr (''Password reset successfully'', ''alice@example.com''), after_reset_db)"
  using reset_db_update [of tok]
  by (simp add: resetPassword_def reset_db_valid sendConfirmationEmail_def demo_sendEmail
        demo_hash varchar_def Let_def)

text \<open>
  C7 on Alice: with the stored token \<open>tok.alice\<close> her password is reset; the same
  request sent again, with another password, is refused.
\<close>

theorem resetPassword_clears_token_witness:
  "resetPassword demo_deps (reset_db ''tok.alice'') ''alice@example.com'' ''NewPassw0rd'' ''tok.alice''
     = (Inr (''Password reset successfully'', ''alice@example.com''), after_reset_db) \<and>
   resetPassword demo_deps after_reset_db ''alice@example.com'' ''Other1Pass'' ''tok.alice''
     = (Inl (BadRequest ''Invalid or expired token''), after_reset_db)"
proof -
  have once: "resetPassword demo_deps (reset_db ''tok.alice'') ''alice@example.com''
                ''NewPassw0rd'' ''tok.alice''
     = (Inr (''Password reset successfully'', ''alice@example.com''), after_reset_db)"
    by (rule reset_db_result) simp
  from resetPassword_clears_token [OF once, of "''Other1Pass''"] once
  show ?thesis by blast
qed

text \<open>
  Claim C1 fails on the code. \<open>resetPassword\<close> should succeed only when the stored
  token equals the provided one and the provided one also passes signature and expiry
  verification. Here the token \<open>tok.old\<close> is stored for Alice and is expired:
  verification answers with null data, yet \<open>resetPassword\<close> succeeds and stores the
  new password. The result of \<open>useToken.verify\<close> is compared with \<open>null\<close>, which it
  never is, so the outcome of the verification is not used
  (see \<open>validateResetToken_iff\<close>, where the package does not occur).
\<close>

theorem resetPassword_expired_token_accepted:
  "data (verify (jwt_verify demo_deps) ''tok.old'' (JWT_SECRET_ACCESS_TOKEN demo_deps)) = None \<and>
   u_passwordToken (hd (users (reset_db ''tok.old''))) = Some ''tok.old'' \<and>
   resetPassword demo_deps (reset_db ''tok.old'') ''alice@example.com'' ''NewPassw0rd'' ''tok.old''
     = (Inr (''Password reset successfully'', ''alice@example.com''), after_reset_db) \<and>
   map u_password (users after_reset_db) = [Some ''h:NewPassw0rd'', Some ''h:Secret123'']"
proof -
  have expired:
    "data (verify (jwt_verify demo_deps) ''tok.old'' (JWT_SECRET_ACCESS_TOKEN demo_deps)) = None"
    by (simp add: verify_def demo_jwt_verify_def demo_deps_def)
  have stored: "u_passwordToken (hd (users (reset_db ''tok.old''))) = Some ''tok.old''"
    by (simp add: reset_db_def)
  have accepted: "resetPassword demo_deps (reset_db ''tok.old'') ''alice@example.com''
                    ''NewPassw0rd'' ''tok.old''
     = (Inr (''Password reset successfully'', ''alice@example.com''), after_reset_db)"
    by (rule reset_db_result) simp
  have changed:
    "map u_password (users after_reset_db) = [Some ''h:NewPassw0rd'', Some ''h:Secret123'']"
    by (simp add: after_reset_db_def demo_db_def alice_def bob_def)
  from expired stored accepted changed show ?thesis by simp
qed

end
